theory Spec2Isabelle
  imports Main "HOL-Library.Word" "HOL-Library.Monad_Syntax"
begin

section \<open>A type-erased container with small-buffer optimisation (any.hpp)\<close>

text \<open>
  The development embeds the class template \<^verbatim>\<open>Any<SIZE>\<close> of \<^verbatim>\<open>any.hpp\<close>, its
  per-type operation tables \<^verbatim>\<open>VTableT<T>\<close> and \<^verbatim>\<open>VTableT<Handle<T>>\<close>, and the class
  \<^verbatim>\<open>Handle<T>\<close>.

  Memory follows the block-and-fragment style of verified C memory models:
  \<^item> a pointer value is abstract (null, the address of a separately stored object,
    the address of the inline buffer of a container, or indeterminate);
  \<^item> a memory cell is an ordinary byte, one of the \<open>PTR_SIZE\<close> fragments of a stored
    pointer, or indeterminate;
  \<^item> the anonymous union \<^verbatim>\<open>{ void *mObject; AlignedStorageT<SIZE> mStorage; }\<close> is one
    cell list: both members start at its first cell, so a write through one member
    is seen through the other;
  \<^item> containers live in a store indexed by their address, so that \<^verbatim>\<open>this\<close> and
    \<^verbatim>\<open>other\<close> may be the same object;
  \<^item> separately stored objects (created by \<^verbatim>\<open>new\<close>, or owned by the caller) live in a
    block list; \<^verbatim>\<open>new\<close> appends a block, \<^verbatim>\<open>delete\<close> empties one, and both are
    recorded in an event list, as a counting allocator would.

  Payload types are modelled by their object representation: a value of type \<open>T\<close> is a
  list of \<open>sizeof T\<close> cells, copy and move construction from another object and
  assignment copy the cells, and a destructor has no effect beyond the recorded event.
  Constructing an object over the very object it is copied from is defined for trivially
  copyable types only. An access that the C++ abstract machine leaves undefined (reading
  or deleting through a null, indeterminate, dangling or wrongly typed pointer, calling
  through a null table pointer, copy-constructing an object that is not trivially
  copyable over itself) is the result \<open>None\<close>. Allocation itself always succeeds.
\<close>

subsection \<open>Types, pointers and cells\<close>

text \<open>
  A payload type: an object type with a name, a size and whether it is trivially
  copyable, or \<^verbatim>\<open>Handle<T>\<close> (a class with one pointer member and the implicit copy
  constructor).
\<close>

datatype ctype = Object string nat bool | HandleOf ctype

datatype pval = Null | Indet | Obj nat | Stor nat

datatype cell = Undef | Byte "8 word" | Frag pval nat

definition PTR_SIZE :: nat where
  "PTR_SIZE = 8"

fun sizeof :: "ctype \<Rightarrow> nat" where
  "sizeof (Object name n tc) = n"
| "sizeof (HandleOf T) = PTR_SIZE"

fun trivially_copyable :: "ctype \<Rightarrow> bool" where
  "trivially_copyable (Object name n tc) = tc"
| "trivially_copyable (HandleOf T) = True"

definition encode_ptr :: "pval \<Rightarrow> cell list" where
  "encode_ptr p = [Frag p 0, Frag p 1, Frag p 2, Frag p 3, Frag p 4, Frag p 5, Frag p 6, Frag p 7]"

definition decode_ptr :: "cell list \<Rightarrow> pval" where
  "decode_ptr cs = (case cs of
      Frag p i # rest \<Rightarrow> if cs = encode_ptr p then p else Indet
    | _ \<Rightarrow> Indet)"

text \<open>Constructing an object of representation \<open>v\<close> at the start of a buffer.\<close>

definition place :: "cell list \<Rightarrow> cell list \<Rightarrow> cell list" where
  "place v buf = v @ drop (length v) buf"

subsection \<open>The container and the program state\<close>

text \<open>\<^verbatim>\<open>&VTableT<T>::mVTable\<close>: one table per type, compared by identity.\<close>

datatype vtable = VTableT ctype

record Any =
  mVTable :: "vtable option"
  mUnion :: "cell list"
  mSBO :: bool

record Handle =
  mReference :: pval

datatype event = Alloc nat | Dtor pval | Free nat

record state =
  anys :: "nat \<Rightarrow> Any"
  objs :: "(ctype \<times> cell list) option list"
  events :: "event list"

definition get_mObject :: "Any \<Rightarrow> pval" where
  "get_mObject a = decode_ptr (take PTR_SIZE (mUnion a))"

definition set_mObject :: "pval \<Rightarrow> Any \<Rightarrow> Any" where
  "set_mObject p a = a\<lparr>mUnion := encode_ptr p @ drop PTR_SIZE (mUnion a)\<rparr>"

definition set_mStorage :: "cell list \<Rightarrow> Any \<Rightarrow> Any" where
  "set_mStorage cs a = a\<lparr>mUnion := cs\<rparr>"

definition set_mSBO :: "bool \<Rightarrow> Any \<Rightarrow> Any" where
  "set_mSBO b a = a\<lparr>mSBO := b\<rparr>"

definition set_mVTable :: "vtable option \<Rightarrow> Any \<Rightarrow> Any" where
  "set_mVTable vt a = a\<lparr>mVTable := vt\<rparr>"

definition modify :: "nat \<Rightarrow> (Any \<Rightarrow> Any) \<Rightarrow> state \<Rightarrow> state" where
  "modify this f s = s\<lparr>anys := (anys s)(this := f (anys s this))\<rparr>"

subsection \<open>Separately stored objects\<close>

definition lookup :: "state \<Rightarrow> nat \<Rightarrow> (ctype \<times> cell list) option" where
  "lookup s b = (if b < length (objs s) then objs s ! b else None)"

text \<open>\<^verbatim>\<open>new T(v)\<close>\<close>

definition new_obj :: "ctype \<Rightarrow> cell list \<Rightarrow> state \<Rightarrow> pval \<times> state" where
  "new_obj T v s =
     (Obj (length (objs s)),
      s\<lparr>objs := objs s @ [Some (T, v)], events := events s @ [Alloc (length (objs s))]\<rparr>)"

text \<open>\<^verbatim>\<open>delete static_cast<T*>(p)\<close>: deleting a null pointer does nothing.\<close>

definition delete_obj :: "ctype \<Rightarrow> pval \<Rightarrow> state \<Rightarrow> state option" where
  "delete_obj T p s = (case p of
      Null \<Rightarrow> Some s
    | Obj b \<Rightarrow> (case lookup s b of
          Some (U, cs) \<Rightarrow>
            if U = T
            then Some (s\<lparr>objs := (objs s)[b := None], events := events s @ [Dtor (Obj b), Free b]\<rparr>)
            else None
        | None \<Rightarrow> None)
    | _ \<Rightarrow> None)"

text \<open>Reading and assigning an object of type \<open>T\<close> through a pointer.\<close>

definition load :: "state \<Rightarrow> ctype \<Rightarrow> pval \<Rightarrow> cell list option" where
  "load s T p = (case p of
      Obj b \<Rightarrow> (case lookup s b of
          Some (U, cs) \<Rightarrow> if U = T then Some cs else None
        | None \<Rightarrow> None)
    | Stor c \<Rightarrow> Some (take (sizeof T) (mUnion (anys s c)))
    | _ \<Rightarrow> None)"

definition store :: "state \<Rightarrow> ctype \<Rightarrow> pval \<Rightarrow> cell list \<Rightarrow> state option" where
  "store s T p v = (case p of
      Obj b \<Rightarrow> (case lookup s b of
          Some (U, cs) \<Rightarrow> if U = T then Some (s\<lparr>objs := (objs s)[b := Some (T, v)]\<rparr>) else None
        | None \<Rightarrow> None)
    | Stor c \<Rightarrow> Some (modify c (\<lambda>a. set_mStorage (place v (mUnion a)) a) s)
    | _ \<Rightarrow> None)"

subsection \<open>The operation tables\<close>

text \<open>
  Each function dispatches on the table as the virtual call does: the first equation is
  the partial specialisation \<^verbatim>\<open>VTableT<Handle<T>>\<close>, the second the primary template.
  The inline variants take and return buffer contents; \<^verbatim>\<open>Move\<close> receives a
  \<^verbatim>\<open>T const*\<close>, so it constructs from a const object and leaves the source as it is.
\<close>

fun Copy_alloc :: "vtable \<Rightarrow> pval \<Rightarrow> state \<Rightarrow> (pval \<times> state) option" where
  "Copy_alloc (VTableT (HandleOf T)) from s = Some (from, s)"
| "Copy_alloc (VTableT T) from s =
     (case load s T from of None \<Rightarrow> None | Some v \<Rightarrow> Some (new_obj T v s))"

fun Copy_SBO :: "vtable \<Rightarrow> cell list \<Rightarrow> cell list \<Rightarrow> cell list" where
  "Copy_SBO (VTableT (HandleOf T)) to from = to"
| "Copy_SBO (VTableT T) to from = place (take (sizeof T) from) to"

fun Move_alloc :: "vtable \<Rightarrow> pval \<Rightarrow> state \<Rightarrow> (pval \<times> state) option" where
  "Move_alloc (VTableT (HandleOf T)) from s = Some (from, s)"
| "Move_alloc (VTableT T) from s =
     (case load s T from of None \<Rightarrow> None | Some v \<Rightarrow> Some (new_obj T v s))"

fun Move_SBO :: "vtable \<Rightarrow> cell list \<Rightarrow> cell list \<Rightarrow> cell list" where
  "Move_SBO (VTableT (HandleOf T)) to from = to"
| "Move_SBO (VTableT T) to from = place (take (sizeof T) from) to"

text \<open>
  \<^verbatim>\<open>Move(to, from)\<close> with \<^verbatim>\<open>to == from\<close>: the placement-new
  \<^verbatim>\<open>new(to) T(std::move(*static_cast<T const*>(from)))\<close> builds the new object in the
  storage of the object its constructor reads. For a trivially copyable \<open>T\<close> the cells
  are copied onto themselves; for any other \<open>T\<close> the object read has ceased to exist
  once its storage is reused, and the result is undefined. The reference-mode table does
  nothing.
\<close>

fun Move_SBO_self :: "vtable \<Rightarrow> cell list \<Rightarrow> cell list option" where
  "Move_SBO_self (VTableT (HandleOf T)) buf = Some buf"
| "Move_SBO_self (VTableT T) buf =
     (if trivially_copyable T then Some (place (take (sizeof T) buf) buf) else None)"

fun Destroy :: "vtable \<Rightarrow> pval \<Rightarrow> bool \<Rightarrow> state \<Rightarrow> state option" where
  "Destroy (VTableT (HandleOf T)) object SBO s = Some s"
| "Destroy (VTableT T) object SBO s =
     (if SBO then Some (s\<lparr>events := events s @ [Dtor object]\<rparr>)
      else delete_obj T object s)"

subsection \<open>Construction, destruction and queries\<close>

text \<open>
  \<^verbatim>\<open>Any() : mVTable(nullptr), mObject(nullptr), mSBO(false)\<close>. The union of a new
  container has \<open>max PTR_SIZE SIZE\<close> cells; those the null pointer does not cover are
  indeterminate.
\<close>

definition Any_default :: "nat \<Rightarrow> nat \<Rightarrow> state \<Rightarrow> state" where
  "Any_default SIZE this s =
     s\<lparr>anys := (anys s)(this :=
        \<lparr>mVTable = None,
         mUnion = encode_ptr Null @ replicate (SIZE - PTR_SIZE) Undef,
         mSBO = False\<rparr>)\<rparr>"

text \<open>\<^verbatim>\<open>explicit operator bool() const { return mVTable; }\<close>\<close>

definition to_bool :: "state \<Rightarrow> nat \<Rightarrow> bool" where
  "to_bool s this = (mVTable (anys s this) \<noteq> None)"

definition Is :: "ctype \<Rightarrow> state \<Rightarrow> nat \<Rightarrow> bool" where
  "Is T s this =
     (mVTable (anys s this) = Some (VTableT (HandleOf T)) \<or> mVTable (anys s this) = Some (VTableT T))"

text \<open>\<^verbatim>\<open>Get<T>\<close> returns a reference: the model returns the address it refers to.\<close>

definition Get :: "state \<Rightarrow> nat \<Rightarrow> pval" where
  "Get s this = (if mSBO (anys s this) then Stor this else get_mObject (anys s this))"

definition TryGet :: "ctype \<Rightarrow> state \<Rightarrow> nat \<Rightarrow> pval" where
  "TryGet T s this =
     (if \<not> Is T s this then Null
      else if mSBO (anys s this) then Stor this
      else get_mObject (anys s this))"

text \<open>
  \<^verbatim>\<open>Any(const Any &other)\<close> and \<^verbatim>\<open>Any(Any &&other)\<close>, statement by statement. Each
  read goes to the store, so the functions also say what happens when \<open>this\<close> and
  \<open>other\<close> are the same address.
\<close>

definition Any_copy :: "nat \<Rightarrow> nat \<Rightarrow> nat \<Rightarrow> state \<Rightarrow> state option" where
  "Any_copy SIZE this other s0 =
     (let s = Any_default SIZE this s0 in
      case mVTable (anys s other) of
        None \<Rightarrow> Some s
      | Some vt \<Rightarrow> do {
          s1 \<leftarrow> (if mSBO (anys s other)
                 then Some (modify this
                        (\<lambda>a. set_mStorage (Copy_SBO vt (mUnion a) (mUnion (anys s other))) a) s)
                 else do {
                   (p, s') \<leftarrow> Copy_alloc vt (get_mObject (anys s other)) s;
                   Some (modify this (set_mObject p) s')
                 });
          let s2 = modify this (set_mSBO (mSBO (anys s1 other))) s1;
          Some (modify this (set_mVTable (mVTable (anys s2 other))) s2)
        })"

definition Any_move :: "nat \<Rightarrow> nat \<Rightarrow> nat \<Rightarrow> state \<Rightarrow> state option" where
  "Any_move SIZE this other s0 =
     (let s = Any_default SIZE this s0 in
      case mVTable (anys s other) of
        None \<Rightarrow> Some s
      | Some vt \<Rightarrow> do {
          s1 \<leftarrow> (if mSBO (anys s other)
                 then Some (modify this
                        (\<lambda>a. set_mStorage (Move_SBO vt (mUnion a) (mUnion (anys s other))) a) s)
                 else do {
                   (p, s') \<leftarrow> Move_alloc vt (get_mObject (anys s other)) s;
                   Some (modify this (set_mObject p) s')
                 });
          let s2 = modify this (set_mSBO (mSBO (anys s1 other))) s1;
          Some (modify this (set_mVTable (mVTable (anys s2 other))) s2)
        })"

text \<open>
  \<^verbatim>\<open>template <typename T, ...> Any(T &&object)\<close>: two overloads, of which
  \<^verbatim>\<open>enable_if\<close> keeps the first when \<^verbatim>\<open>sizeof(decay_t<T>) <= SIZE\<close> and the second
  otherwise. \<open>T\<close> is the decayed type and \<open>v\<close> the representation of \<open>object\<close>.
\<close>

definition Any_value :: "nat \<Rightarrow> ctype \<Rightarrow> cell list \<Rightarrow> nat \<Rightarrow> state \<Rightarrow> state" where
  "Any_value SIZE T v this s0 =
     (let s = Any_default SIZE this s0 in
      if sizeof T \<le> SIZE then
        let s1 = modify this (\<lambda>a. set_mStorage (place v (mUnion a)) a) s;
            s2 = modify this (set_mSBO True) s1
        in modify this (set_mVTable (Some (VTableT T))) s2
      else
        let (p, s') = new_obj T v s;
            s1 = modify this (set_mObject p) s';
            s2 = modify this (set_mSBO False) s1
        in modify this (set_mVTable (Some (VTableT T))) s2)"

text \<open>\<^verbatim>\<open>Handle(T &object)\<close>, \<^verbatim>\<open>Handle(const Any<SIZE> &object)\<close> and \<^verbatim>\<open>Any(Handle<T> handle)\<close>\<close>

definition Handle_object :: "pval \<Rightarrow> Handle" where
  "Handle_object object = \<lparr>mReference = object\<rparr>"


definition Any_handle :: "nat \<Rightarrow> ctype \<Rightarrow> Handle \<Rightarrow> nat \<Rightarrow> state \<Rightarrow> state" where
  "Any_handle SIZE T handle this s0 =
     (let s = Any_default SIZE this s0;
          s1 = modify this (set_mObject (mReference handle)) s
      in modify this (set_mVTable (Some (VTableT (HandleOf T)))) s1)"

text \<open>\<^verbatim>\<open>~Any()\<close>\<close>

definition Any_dtor :: "nat \<Rightarrow> state \<Rightarrow> state option" where
  "Any_dtor this s =
     (case mVTable (anys s this) of
        None \<Rightarrow> Some s
      | Some vt \<Rightarrow>
          if mSBO (anys s this) then Destroy vt (Stor this) True s
          else Destroy vt (get_mObject (anys s this)) False s)"

subsection \<open>Swap and assignment\<close>

text \<open>
  \<^verbatim>\<open>void Any<SIZE>::Swap(Any &other)\<close>. Both storage flags are read before the first
  write, as the nested \<^verbatim>\<open>if\<close> does. \<^verbatim>\<open>storageTemp\<close> is a local buffer of \<open>SIZE\<close>
  indeterminate cells. There is no test for \<^verbatim>\<open>this == &other\<close>: in that case the second
  \<^verbatim>\<open>Move\<close> of the inline branch, \<^verbatim>\<open>other.mVTable->Move(&mStorage, &other.mStorage)\<close>, has
  the same buffer as destination and source.
\<close>

definition Swap :: "nat \<Rightarrow> nat \<Rightarrow> nat \<Rightarrow> state \<Rightarrow> state option" where
  "Swap SIZE this other s = do {
     s' \<leftarrow>
       (if mSBO (anys s this) then
          if mSBO (anys s other) then do {
            vt \<leftarrow> mVTable (anys s this);
            let storageTemp = Move_SBO vt (replicate SIZE Undef) (mUnion (anys s this));
            ovt \<leftarrow> mVTable (anys s other);
            storage \<leftarrow>
              (if this = other then Move_SBO_self ovt (mUnion (anys s this))
               else Some (Move_SBO ovt (mUnion (anys s this)) (mUnion (anys s other))));
            let s1 = modify this (set_mStorage storage) s;
            vt' \<leftarrow> mVTable (anys s1 this);
            Some (modify other (\<lambda>b. set_mStorage (Move_SBO vt' (mUnion b) storageTemp) b) s1)
          }
          else do {
            let s1 = modify this (set_mObject (get_mObject (anys s other))) s;
            let s2 = modify this (set_mSBO False) s1;
            vt \<leftarrow> mVTable (anys s2 this);
            let s3 = modify other
                       (\<lambda>b. set_mStorage (Move_SBO vt (mUnion b) (mUnion (anys s2 this))) b) s2;
            Some (modify other (set_mSBO True) s3)
          }
        else
          if mSBO (anys s other) then do {
            ovt \<leftarrow> mVTable (anys s other);
            let s1 = modify this
                       (\<lambda>a. set_mStorage (Move_SBO ovt (mUnion a) (mUnion (anys s other))) a) s;
            let s2 = modify this (set_mSBO True) s1;
            let s3 = modify other (set_mObject (get_mObject (anys s2 this))) s2;
            Some (modify other (set_mSBO False) s3)
          }
          else do {
            let objectTemp = get_mObject (anys s this);
            let s1 = modify this (set_mObject (get_mObject (anys s other))) s;
            Some (modify other (set_mObject objectTemp) s1)
          });
     let vTableTemp = mVTable (anys s' this);
     let s'' = modify this (set_mVTable (mVTable (anys s' other))) s';
     Some (modify other (set_mVTable vTableTemp) s'')
   }"

text \<open>\<^verbatim>\<open>template <size_t SIZE> void swap(Any<SIZE> &a, Any<SIZE> &b) { a.Swap(b); }\<close>\<close>

definition swap_any :: "nat \<Rightarrow> nat \<Rightarrow> nat \<Rightarrow> state \<Rightarrow> state option" where
  "swap_any SIZE a b s = Swap SIZE a b s"

text \<open>
  Copy, move and handle assignment build the automatic variable \<^verbatim>\<open>temp\<close> (at the
  address \<open>temp\<close>), swap it with \<^verbatim>\<open>*this\<close> and destroy it on return.
\<close>

definition assign_copy :: "nat \<Rightarrow> nat \<Rightarrow> nat \<Rightarrow> nat \<Rightarrow> state \<Rightarrow> state option" where
  "assign_copy SIZE temp this other s = do {
     s1 \<leftarrow> Any_copy SIZE temp other s;
     s2 \<leftarrow> Swap SIZE this temp s1;
     Any_dtor temp s2
   }"

definition assign_move :: "nat \<Rightarrow> nat \<Rightarrow> nat \<Rightarrow> nat \<Rightarrow> state \<Rightarrow> state option" where
  "assign_move SIZE temp this other s = do {
     s1 \<leftarrow> Any_move SIZE temp other s;
     s2 \<leftarrow> Swap SIZE this temp s1;
     Any_dtor temp s2
   }"

definition assign_handle :: "nat \<Rightarrow> ctype \<Rightarrow> nat \<Rightarrow> nat \<Rightarrow> Handle \<Rightarrow> state \<Rightarrow> state option" where
  "assign_handle SIZE T temp this handle s = do {
     let s1 = Any_handle SIZE T handle temp s;
     s2 \<leftarrow> Swap SIZE this temp s1;
     Any_dtor temp s2
   }"

text \<open>
  \<^verbatim>\<open>template <typename T, ...> Any &operator=(T &&object)\<close>, with \<open>T\<close> the decayed
  type. The branch for a container that holds another type tests
  \<^verbatim>\<open>sizeof(T_) <= SIZE\<close>; the branch for an empty container tests \<^verbatim>\<open>sizeof(T_) < SIZE\<close>.
\<close>

definition assign_value :: "nat \<Rightarrow> ctype \<Rightarrow> cell list \<Rightarrow> nat \<Rightarrow> state \<Rightarrow> state option" where
  "assign_value SIZE T v this s =
     (case mVTable (anys s this) of
        Some vt \<Rightarrow>
          if Is T s this then
            (if mSBO (anys s this) then store s T (Stor this) v
             else store s T (get_mObject (anys s this)) v)
          else do {
            s1 \<leftarrow> (if mSBO (anys s this) then Destroy vt (Stor this) True s
                   else Destroy vt (get_mObject (anys s this)) False s);
            let s2 =
              (if sizeof T \<le> SIZE then
                 modify this (set_mSBO True)
                   (modify this (\<lambda>a. set_mStorage (place v (mUnion a)) a) s1)
               else
                 let (p, s') = new_obj T v s1
                 in modify this (set_mSBO False) (modify this (set_mObject p) s'));
            Some (modify this (set_mVTable (Some (VTableT T))) s2)
          }
      | None \<Rightarrow>
          let s2 =
            (if sizeof T < SIZE then
               modify this (set_mSBO True)
                 (modify this (\<lambda>a. set_mStorage (place v (mUnion a)) a) s)
             else
               let (p, s') = new_obj T v s
               in modify this (set_mSBO False) (modify this (set_mObject p) s'))
          in Some (modify this (set_mVTable (Some (VTableT T))) s2))"

subsection \<open>Notions used to state the properties\<close>

text \<open>
  The value constructor and value assignment are never instantiated with a \<^verbatim>\<open>Handle\<close>
  type: for a \<^verbatim>\<open>Handle<T>\<close> argument overload resolution selects the more specialised
  \<^verbatim>\<open>Any(Handle<T>)\<close> and \<^verbatim>\<open>operator=(Handle<T>)\<close>.
\<close>

fun is_object :: "ctype \<Rightarrow> bool" where
  "is_object (Object name n tc) = True"
| "is_object (HandleOf T) = False"

text \<open>\<open>owns\<close>: \<open>p\<close> is the address of a live separately stored object of type \<open>T\<close>.\<close>

definition owns :: "state \<Rightarrow> ctype \<Rightarrow> pval \<Rightarrow> bool" where
  "owns s T p = (case p of
      Obj b \<Rightarrow> (case lookup s b of Some (U, v) \<Rightarrow> U = T | None \<Rightarrow> False)
    | _ \<Rightarrow> False)"

text \<open>
  \<open>points_to\<close>: \<open>p\<close> is the address of a live object of type \<open>T\<close>, stored separately
  or inline in a container.
\<close>

definition points_to :: "state \<Rightarrow> ctype \<Rightarrow> pval \<Rightarrow> bool" where
  "points_to s T p = (case p of
      Obj b \<Rightarrow> (case lookup s b of Some (U, v) \<Rightarrow> U = T | None \<Rightarrow> False)
    | Stor c \<Rightarrow> is_object T \<and> mSBO (anys s c) \<and> mVTable (anys s c) = Some (VTableT T)
    | _ \<Rightarrow> False)"

text \<open>
  The states the constructors establish: empty (null table, null pointer, flag clear),
  reference mode (the pointer refers to a live object of the type), inline (the payload
  fits the union) and heap (the pointer owns a live block of the type).
\<close>

fun valid_Any :: "vtable option \<Rightarrow> state \<Rightarrow> nat \<Rightarrow> bool" where
  "valid_Any None s c = (\<not> mSBO (anys s c) \<and> get_mObject (anys s c) = Null)"
| "valid_Any (Some (VTableT (HandleOf T))) s c =
     (\<not> mSBO (anys s c) \<and> points_to s T (get_mObject (anys s c)))"
| "valid_Any (Some (VTableT T)) s c =
     (if mSBO (anys s c) then sizeof T \<le> length (mUnion (anys s c))
      else owns s T (get_mObject (anys s c)))"

definition valid :: "state \<Rightarrow> nat \<Rightarrow> bool" where
  "valid s c = valid_Any (mVTable (anys s c)) s c"

text \<open>The type of the object a table stands for, and the value a container gives access to.\<close>

fun payload_type :: "vtable \<Rightarrow> ctype" where
  "payload_type (VTableT (HandleOf T)) = T"
| "payload_type (VTableT T) = T"

definition holds :: "ctype \<Rightarrow> state \<Rightarrow> nat \<Rightarrow> bool" where
  "holds T s c = (case mVTable (anys s c) of None \<Rightarrow> False | Some vt \<Rightarrow> payload_type vt = T)"


definition held_value :: "state \<Rightarrow> nat \<Rightarrow> cell list option" where
  "held_value s c = (case mVTable (anys s c) of
      None \<Rightarrow> None
    | Some vt \<Rightarrow> load s (payload_type vt) (Get s c))"

subsection \<open>Concrete types, values and states\<close>

definition ex_int :: ctype where
  "ex_int = Object ''int'' 4 True"

definition ex_double :: ctype where
  "ex_double = Object ''double'' 8 True"

definition ex_big :: ctype where
  "ex_big = Object ''Big'' 16 True"

text \<open>An 8-byte class with a copy constructor of its own.\<close>

definition ex_str :: ctype where
  "ex_str = Object ''Str'' 8 False"

definition ex_v42 :: "cell list" where
  "ex_v42 = [Byte 42, Byte 0, Byte 0, Byte 0]"

definition ex_v7 :: "cell list" where
  "ex_v7 = [Byte 7, Byte 0, Byte 0, Byte 0]"

definition ex_vdouble :: "cell list" where
  "ex_vdouble = [Byte 1, Byte 2, Byte 3, Byte 4, Byte 5, Byte 6, Byte 7, Byte 8]"

definition ex_vbig :: "cell list" where
  "ex_vbig = [Byte 1, Byte 2, Byte 3, Byte 4, Byte 5, Byte 6, Byte 7, Byte 8,
              Byte 9, Byte 10, Byte 11, Byte 12, Byte 13, Byte 14, Byte 15, Byte 16]"

text \<open>Memory before anything is constructed; then with one \<^verbatim>\<open>int\<close> owned by the caller.\<close>

definition ex_mem :: state where
  "ex_mem = \<lparr>anys = (\<lambda>a. \<lparr>mVTable = None, mUnion = [], mSBO = False\<rparr>), objs = [], events = []\<rparr>"

definition ex_extern :: state where
  "ex_extern = ex_mem\<lparr>objs := [Some (ex_int, ex_v42)]\<rparr>"

text \<open>
  \<^verbatim>\<open>Any<8> a(42); Any<8> b(Big{...});\<close> with \<open>a\<close> at address 0 (inline) and \<open>b\<close> at
  address 1 (heap).
\<close>

definition ex_two :: state where
  "ex_two = Any_value 8 ex_big ex_vbig 1 (Any_value 8 ex_int ex_v42 0 ex_mem)"

subsection \<open>Basic facts\<close>

lemma decode_encode_ptr: "decode_ptr (encode_ptr p) = p"
  by (simp add: decode_ptr_def encode_ptr_def)

lemma length_encode_ptr: "length (encode_ptr p) = PTR_SIZE"
  by (simp add: encode_ptr_def PTR_SIZE_def)



lemmas field_defs = modify_def set_mObject_def set_mStorage_def set_mSBO_def set_mVTable_def

lemmas op_defs = Any_default_def Any_copy_def Any_move_def Swap_def Any_dtor_def
  assign_copy_def assign_move_def Let_def

lemmas eval_defs = get_mObject_def decode_ptr_def encode_ptr_def PTR_SIZE_def place_def lookup_def

lemmas ex_defs = ex_int_def ex_double_def ex_big_def ex_str_def ex_v42_def ex_v7_def
  ex_vdouble_def ex_vbig_def ex_mem_def

lemma get_mObject_encode: "mUnion a = encode_ptr p @ rest \<Longrightarrow> get_mObject a = p"
  by (simp add: get_mObject_def length_encode_ptr decode_encode_ptr)




lemma take_place: "n \<le> length xs \<Longrightarrow> take n (place (take n xs) ys) = take n xs"
  by (simp add: place_def)

lemma is_object_not_handle: "is_object T \<Longrightarrow> T \<noteq> HandleOf U"
  by (cases T) auto




subsection \<open>The constructors in closed form\<close>

lemma Any_value_inline:
  "sizeof T \<le> SIZE \<Longrightarrow> Any_value SIZE T v this s =
     s\<lparr>anys := (anys s)(this :=
        \<lparr>mVTable = Some (VTableT T),
         mUnion = place v (encode_ptr Null @ replicate (SIZE - PTR_SIZE) Undef),
         mSBO = True\<rparr>)\<rparr>"
  by (simp add: Any_value_def Any_default_def field_defs)

lemma Any_value_heap:
  "\<not> sizeof T \<le> SIZE \<Longrightarrow> Any_value SIZE T v this s =
     s\<lparr>anys := (anys s)(this :=
        \<lparr>mVTable = Some (VTableT T),
         mUnion = encode_ptr (Obj (length (objs s))) @ replicate (SIZE - PTR_SIZE) Undef,
         mSBO = False\<rparr>),
       objs := objs s @ [Some (T, v)],
       events := events s @ [Alloc (length (objs s))]\<rparr>"
  by (simp add: Any_value_def Any_default_def field_defs new_obj_def length_encode_ptr)

lemma Any_handle_eq:
  "Any_handle SIZE T h this s =
     s\<lparr>anys := (anys s)(this :=
        \<lparr>mVTable = Some (VTableT (HandleOf T)),
         mUnion = encode_ptr (mReference h) @ replicate (SIZE - PTR_SIZE) Undef,
         mSBO = False\<rparr>)\<rparr>"
  by (simp add: Any_handle_def Any_default_def field_defs length_encode_ptr)

lemma ex_two_eq:
  "ex_two = \<lparr>anys = (\<lambda>a. \<lparr>mVTable = None, mUnion = [], mSBO = False\<rparr>)
       (0 := \<lparr>mVTable = Some (VTableT ex_int),
               mUnion = ex_v42 @ [Frag Null 4, Frag Null 5, Frag Null 6, Frag Null 7],
               mSBO = True\<rparr>,
        1 := \<lparr>mVTable = Some (VTableT ex_big), mUnion = encode_ptr (Obj 0), mSBO = False\<rparr>),
     objs = [Some (ex_big, ex_vbig)],
     events = [Alloc 0]\<rparr>"
  by (simp add: ex_two_def Any_value_inline Any_value_heap ex_defs place_def encode_ptr_def
      PTR_SIZE_def)

subsection \<open>Valid states\<close>

lemma valid_cases:
  assumes "valid s c"
  obtains
    (Empty) "mVTable (anys s c) = None" "\<not> mSBO (anys s c)" "get_mObject (anys s c) = Null"
  | (Reference) T where "mVTable (anys s c) = Some (VTableT (HandleOf T))" "\<not> mSBO (anys s c)"
      "points_to s T (get_mObject (anys s c))"
  | (Inline) name n tc where "mVTable (anys s c) = Some (VTableT (Object name n tc))" "mSBO (anys s c)"
      "n \<le> length (mUnion (anys s c))"
  | (Heap) name n tc b v where "mVTable (anys s c) = Some (VTableT (Object name n tc))"
      "\<not> mSBO (anys s c)" "get_mObject (anys s c) = Obj b" "lookup s b = Some (Object name n tc, v)"
proof (cases "mVTable (anys s c)")
  case None
  with assms Empty show ?thesis by (simp add: valid_def)
next
  case (Some vt)
  obtain U where vt: "vt = VTableT U" by (cases vt) auto
  show ?thesis
  proof (cases U)
    case (HandleOf T)
    with assms Some vt Reference show ?thesis by (simp add: valid_def)
  next
    case (Object name n tc)
    show ?thesis
    proof (cases "mSBO (anys s c)")
      case True
      with assms Some vt Object Inline show ?thesis by (simp add: valid_def)
    next
      case False
      with assms Some vt Object have o: "owns s (Object name n tc) (get_mObject (anys s c))"
        by (simp add: valid_def)
      then obtain b where b: "get_mObject (anys s c) = Obj b"
        by (cases "get_mObject (anys s c)") (auto simp add: owns_def)
      with o obtain v where "lookup s b = Some (Object name n tc, v)"
        by (cases "lookup s b") (auto simp add: owns_def)
      with Some vt Object False b Heap show ?thesis by simp
    qed
  qed
qed


lemma holds_imp_Is: "holds T s c \<Longrightarrow> Is T s c"
proof -
  assume h: "holds T s c"
  then obtain U where vt: "mVTable (anys s c) = Some (VTableT U)"
    by (cases "mVTable (anys s c)") (auto simp add: holds_def intro: vtable.exhaust)
  with h show ?thesis
    by (cases U) (auto simp add: holds_def Is_def)
qed

lemma holds_Is: "is_object T \<Longrightarrow> holds T s c = Is T s c"
proof (cases "mVTable (anys s c)")
  case None
  then show ?thesis by (simp add: holds_def Is_def)
next
  case (Some vt)
  assume obj: "is_object T"
  obtain U where vt: "vt = VTableT U" by (cases vt) auto
  from obj Some vt show ?thesis
    by (cases U; cases T) (auto simp add: holds_def Is_def)
qed



subsection \<open>The empty container\<close>

text \<open>
  Claim C8. A default-constructed container is empty: its boolean conversion is false,
  and for every type \<open>T\<close> the query \<open>Is<T>\<close> is false and \<open>TryGet<T>\<close> returns the
  null pointer (a value, not an error).
\<close>

theorem empty_container_contract:
  "\<not> to_bool (Any_default SIZE this s) this
   \<and> \<not> Is T (Any_default SIZE this s) this
   \<and> TryGet T (Any_default SIZE this s) this = Null"
  by (simp add: to_bool_def Is_def TryGet_def Any_default_def)

subsection \<open>Construction from a value\<close>

text \<open>
  Claim C3. For every object type \<open>T\<close> and every value \<open>v\<close> of that type, the container
  constructed from \<open>v\<close> answers \<open>Is<T>\<close> with true, \<open>TryGet<T>\<close> returns a non-null
  pointer to a value equal to \<open>v\<close>, and \<open>Is<U>\<close> is false for every type \<open>U\<close> other
  than \<open>T\<close> (\<^verbatim>\<open>Handle\<close> types included).
\<close>

theorem construct_roundtrip:
  assumes "is_object T" and "length v = sizeof T"
  shows "Is T (Any_value SIZE T v this s) this
       \<and> TryGet T (Any_value SIZE T v this s) this \<noteq> Null
       \<and> load (Any_value SIZE T v this s) T (TryGet T (Any_value SIZE T v this s) this) = Some v
       \<and> (\<forall>U. U \<noteq> T \<longrightarrow> \<not> Is U (Any_value SIZE T v this s) this)"
proof (cases "sizeof T \<le> SIZE")
  case True
  show ?thesis using assms is_object_not_handle[OF assms(1)]
    by (auto simp add: Any_value_inline[OF True] Is_def TryGet_def load_def place_def)
next
  case False
  show ?thesis using assms is_object_not_handle[OF assms(1)]
    by (auto simp add: Any_value_heap[OF False] Is_def TryGet_def load_def lookup_def
        get_mObject_encode)
qed

theorem construct_roundtrip_witness:
  "is_object ex_int \<and> length ex_v42 = sizeof ex_int
   \<and> Is ex_int (Any_value 8 ex_int ex_v42 0 ex_mem) 0
   \<and> TryGet ex_int (Any_value 8 ex_int ex_v42 0 ex_mem) 0 \<noteq> Null
   \<and> load (Any_value 8 ex_int ex_v42 0 ex_mem) ex_int
        (TryGet ex_int (Any_value 8 ex_int ex_v42 0 ex_mem) 0) = Some ex_v42
   \<and> \<not> Is ex_double (Any_value 8 ex_int ex_v42 0 ex_mem) 0"
proof -
  have a: "is_object ex_int" by (simp add: ex_int_def)
  have b: "length ex_v42 = sizeof ex_int" by (simp add: ex_int_def ex_v42_def)
  have c: "ex_double \<noteq> ex_int" by (simp add: ex_int_def ex_double_def)
  from construct_roundtrip[OF a b, of 8 0 ex_mem] a b c show ?thesis by blast
qed

text \<open>
  Claim C4. Construction from a value \<open>v\<close> of an object type \<open>T\<close> with
  \<open>sizeof T \<le> SIZE\<close> stores the payload inline: the flag is set, the table is that of
  \<open>T\<close>, the union begins with the cells of \<open>v\<close>, \<open>Get\<close> refers to the inline buffer,
  no block is allocated, and destruction only runs the destructor in place. With \<open>SIZE < sizeof T\<close> construction performs
  exactly one allocation, the pointer slot holds the new block, and destruction of the
  container performs exactly one deallocation, of that block.
\<close>

theorem size_threshold_placement:
  assumes "is_object T"
  shows "(sizeof T \<le> SIZE \<longrightarrow>
            mSBO (anys (Any_value SIZE T v this s) this)
          \<and> mVTable (anys (Any_value SIZE T v this s) this) = Some (VTableT T)
          \<and> take (length v) (mUnion (anys (Any_value SIZE T v this s) this)) = v
          \<and> Get (Any_value SIZE T v this s) this = Stor this
          \<and> objs (Any_value SIZE T v this s) = objs s
          \<and> events (Any_value SIZE T v this s) = events s
          \<and> map_option objs (Any_dtor this (Any_value SIZE T v this s)) = Some (objs s)
          \<and> map_option events (Any_dtor this (Any_value SIZE T v this s))
              = Some (events s @ [Dtor (Stor this)]))
       \<and> (SIZE < sizeof T \<longrightarrow>
            \<not> mSBO (anys (Any_value SIZE T v this s) this)
          \<and> mVTable (anys (Any_value SIZE T v this s) this) = Some (VTableT T)
          \<and> get_mObject (anys (Any_value SIZE T v this s) this) = Obj (length (objs s))
          \<and> lookup (Any_value SIZE T v this s) (length (objs s)) = Some (T, v)
          \<and> events (Any_value SIZE T v this s) = events s @ [Alloc (length (objs s))]
          \<and> map_option (\<lambda>t. lookup t (length (objs s))) (Any_dtor this (Any_value SIZE T v this s))
              = Some None
          \<and> map_option events (Any_dtor this (Any_value SIZE T v this s))
              = Some (events s @ [Alloc (length (objs s)), Dtor (Obj (length (objs s))),
                                  Free (length (objs s))]))"
proof -
  obtain name n tc where T: "T = Object name n tc"
    using assms by (cases T) auto
  show ?thesis
  proof (cases "n \<le> SIZE")
    case True
    then have eq: "sizeof (Object name n tc) \<le> SIZE" by simp
    show ?thesis unfolding T using True
      by (simp add: Any_value_inline[OF eq] Any_dtor_def Get_def place_def)
  next
    case False
    then have eq: "\<not> sizeof (Object name n tc) \<le> SIZE" by simp
    show ?thesis unfolding T using False
      by (simp add: Any_value_heap[OF eq] Any_dtor_def get_mObject_encode
          delete_obj_def lookup_def)
  qed
qed

theorem size_threshold_placement_witness:
  "mSBO (anys (Any_value 8 ex_int ex_v42 0 ex_mem) 0)
   \<and> take (length ex_v42) (mUnion (anys (Any_value 8 ex_int ex_v42 0 ex_mem) 0)) = ex_v42
   \<and> Get (Any_value 8 ex_int ex_v42 0 ex_mem) 0 = Stor 0
   \<and> events (Any_value 8 ex_int ex_v42 0 ex_mem) = []
   \<and> map_option events (Any_dtor 0 (Any_value 8 ex_int ex_v42 0 ex_mem)) = Some [Dtor (Stor 0)]
   \<and> \<not> mSBO (anys (Any_value 8 ex_big ex_vbig 0 ex_mem) 0)
   \<and> events (Any_value 8 ex_big ex_vbig 0 ex_mem) = [Alloc 0]
   \<and> map_option events (Any_dtor 0 (Any_value 8 ex_big ex_vbig 0 ex_mem))
        = Some [Alloc 0, Dtor (Obj 0), Free 0]"
  using size_threshold_placement[of ex_int 8 ex_v42 0 ex_mem]
        size_threshold_placement[of ex_big 8 ex_vbig 0 ex_mem]
  by (simp add: ex_defs)

subsection \<open>Assignment of a value\<close>

text \<open>
  Where value assignment builds a new object, the branch for an empty container places
  it inline only when \<open>sizeof T < SIZE\<close>, the branch for a container that holds
  another type when \<open>sizeof T \<le> SIZE\<close>. Where the container already answers \<open>Is<T>\<close>,
  the value is assigned to the object that \<open>Get\<close> refers to.
\<close>

lemma assign_value_empty_placement:
  assumes "mVTable (anys s this) = None"
  shows "\<exists>s'. assign_value SIZE T v this s = Some s'
            \<and> mVTable (anys s' this) = Some (VTableT T)
            \<and> mSBO (anys s' this) = (sizeof T < SIZE)"
  using assms
  by (simp add: assign_value_def Let_def field_defs new_obj_def)

lemma assign_value_rebind_placement:
  assumes "valid s this" "mVTable (anys s this) \<noteq> None" "\<not> Is T s this"
  shows "\<exists>s'. assign_value SIZE T v this s = Some s'
            \<and> mVTable (anys s' this) = Some (VTableT T)
            \<and> mSBO (anys s' this) = (sizeof T \<le> SIZE)"
  using assms(1)
proof (cases rule: valid_cases)
  case Empty
  with assms(2) show ?thesis by simp
next
  case (Reference U)
  with assms(3) show ?thesis
    by (simp add: assign_value_def Let_def field_defs new_obj_def)
next
  case (Inline name n tc)
  with assms(3) show ?thesis
    by (simp add: assign_value_def Let_def field_defs new_obj_def)
next
  case (Heap name n tc b w)
  with assms(3) show ?thesis
    by (simp add: assign_value_def Let_def field_defs new_obj_def delete_obj_def)
qed

lemma assign_value_in_place:
  "mVTable (anys s this) \<noteq> None \<Longrightarrow> Is T s this \<Longrightarrow>
     assign_value SIZE T v this s = store s T (Get s this) v"
  by (auto simp add: assign_value_def Get_def)

text \<open>
  Claim C2 says that value assignment to an empty container, or to one that holds
  another type, places the new object by the rule of construction (inline when
  \<open>sizeof T \<le> SIZE\<close>). The code does so for a container that holds another type; for an
  empty container and \<open>sizeof T = SIZE\<close> it allocates instead. At \<open>SIZE = 8\<close> and an
  8-byte type: construction is inline and allocates nothing; assignment over a held
  \<^verbatim>\<open>int\<close> is inline; assignment to a default-constructed container clears the flag and
  allocates block 0.
\<close>

theorem assign_value_empty_at_capacity:
  "mSBO (anys (Any_value 8 ex_double ex_vdouble 0 ex_mem) 0)
   \<and> events (Any_value 8 ex_double ex_vdouble 0 ex_mem) = []
   \<and> map_option (\<lambda>t. (mSBO (anys t 0), mVTable (anys t 0), events t))
        (assign_value 8 ex_double ex_vdouble 0 (Any_value 8 ex_int ex_v42 0 ex_mem))
       = Some (True, Some (VTableT ex_double), [Dtor (Stor 0)])
   \<and> map_option (\<lambda>t. (mSBO (anys t 0), mVTable (anys t 0), events t))
        (assign_value 8 ex_double ex_vdouble 0 (Any_default 8 0 ex_mem))
       = Some (False, Some (VTableT ex_double), [Alloc 0])"
  by (simp add: Any_value_inline assign_value_def Any_default_def Is_def field_defs new_obj_def
      ex_defs)

subsection \<open>Reference mode\<close>

text \<open>
  Claim C5. Let a container be constructed from a handle to an object owned by the
  caller (block \<open>b\<close>, type \<open>T\<close>). In every later state in which the container is as
  constructed, whatever value \<open>v\<close> the object has by then is the value read through
  \<open>Get<T>\<close> and through \<open>TryGet<T>\<close>; destroying the container leaves the whole state
  as it is (no destructor runs, nothing is freed); and each of the five operations of
  the reference-mode table returns its argument or does nothing.
\<close>

theorem reference_mode_aliasing:
  assumes "anys s2 this = anys (Any_handle SIZE T (Handle_object (Obj b)) this s) this"
      and "lookup s2 b = Some (T, v)"
  shows "load s2 T (Get s2 this) = Some v
       \<and> load s2 T (TryGet T s2 this) = Some v
       \<and> Any_dtor this s2 = Some s2
       \<and> Copy_alloc (VTableT (HandleOf T)) p s2 = Some (p, s2)
       \<and> Move_alloc (VTableT (HandleOf T)) p s2 = Some (p, s2)
       \<and> Copy_SBO (VTableT (HandleOf T)) to from = to
       \<and> Move_SBO (VTableT (HandleOf T)) to from = to
       \<and> Destroy (VTableT (HandleOf T)) p SBO s2 = Some s2"
  using assms
  by (simp add: Any_handle_eq Handle_object_def Get_def TryGet_def Is_def get_mObject_encode
      load_def Any_dtor_def)

theorem reference_mode_aliasing_witness:
  "load ((Any_handle 8 ex_int (Handle_object (Obj 0)) 0 ex_extern)\<lparr>objs := [Some (ex_int, ex_v7)]\<rparr>)
        ex_int
        (Get ((Any_handle 8 ex_int (Handle_object (Obj 0)) 0 ex_extern)\<lparr>objs := [Some (ex_int, ex_v7)]\<rparr>) 0)
     = Some ex_v7
   \<and> Any_dtor 0 ((Any_handle 8 ex_int (Handle_object (Obj 0)) 0 ex_extern)\<lparr>objs := [Some (ex_int, ex_v7)]\<rparr>)
     = Some ((Any_handle 8 ex_int (Handle_object (Obj 0)) 0 ex_extern)\<lparr>objs := [Some (ex_int, ex_v7)]\<rparr>)"
  using reference_mode_aliasing[of
          "(Any_handle 8 ex_int (Handle_object (Obj 0)) 0 ex_extern)\<lparr>objs := [Some (ex_int, ex_v7)]\<rparr>"
          0 8 ex_int 0 ex_extern ex_v7]
  by (simp add: lookup_def ex_extern_def Any_handle_eq)

text \<open>
  Claim C9. For a container bound to the reference-mode table for \<open>T\<close> whose pointer
  refers to an object of type \<open>T\<close> owned by the caller, assignment of a value of type
  \<open>T\<close> assigns through the stored pointer: the result is the state in which that
  object has the new value, and the container itself (table, flag, pointer) is as
  before.
\<close>

theorem assign_value_through_reference:
  assumes "mVTable (anys s this) = Some (VTableT (HandleOf T))"
      and "\<not> mSBO (anys s this)"
      and "get_mObject (anys s this) = Obj b"
      and "lookup s b = Some (T, v0)"
  shows "assign_value SIZE T v this s = Some (s\<lparr>objs := (objs s)[b := Some (T, v)]\<rparr>)
       \<and> lookup (s\<lparr>objs := (objs s)[b := Some (T, v)]\<rparr>) b = Some (T, v)
       \<and> anys (s\<lparr>objs := (objs s)[b := Some (T, v)]\<rparr>) this = anys s this"
  using assms
  by (auto simp add: assign_value_def Is_def store_def lookup_def split: if_splits)

theorem assign_value_through_reference_witness:
  "assign_value 8 ex_int ex_v7 0 (Any_handle 8 ex_int (Handle_object (Obj 0)) 0 ex_extern)
     = Some ((Any_handle 8 ex_int (Handle_object (Obj 0)) 0 ex_extern)\<lparr>objs := [Some (ex_int, ex_v7)]\<rparr>)"
  using assign_value_through_reference[of "Any_handle 8 ex_int (Handle_object (Obj 0)) 0 ex_extern"
          0 ex_int 0 ex_v42 8 ex_v7]
  by (simp add: lookup_def ex_extern_def Any_handle_eq Handle_object_def get_mObject_encode)



subsection \<open>Move construction\<close>

text \<open>
  Claim C6. Move construction from a non-empty container in a valid state returns, and
  afterwards the source has the table pointer and the storage flag it had: it is not
  reset to empty, and its destructor still runs to completion.
\<close>

theorem move_ctor_keeps_source:
  assumes "valid s other" and "mVTable (anys s other) \<noteq> None" and "this \<noteq> other"
  shows "\<exists>s'. Any_move SIZE this other s = Some s'
            \<and> mVTable (anys s' other) = mVTable (anys s other)
            \<and> mSBO (anys s' other) = mSBO (anys s other)
            \<and> to_bool s' other
            \<and> (\<exists>s''. Any_dtor other s' = Some s'')"
  using assms(1)
proof (cases rule: valid_cases)
  case Empty
  with assms(2) show ?thesis by simp
next
  case (Reference T)
  with assms(3) show ?thesis
    by (simp add: op_defs field_defs to_bool_def)
next
  case (Inline name n tc)
  with assms(3) show ?thesis
    by (simp add: op_defs field_defs to_bool_def)
next
  case (Heap name n tc b v)
  with assms(3) show ?thesis
    by (auto simp add: op_defs field_defs to_bool_def load_def lookup_def new_obj_def
        delete_obj_def nth_append split: if_splits)
qed

theorem move_ctor_keeps_source_witness:
  "valid ex_two 1 \<and> mVTable (anys ex_two 1) \<noteq> None
   \<and> (\<exists>s'. Any_move 8 2 1 ex_two = Some s'
          \<and> mVTable (anys s' 1) = mVTable (anys ex_two 1)
          \<and> mSBO (anys s' 1) = mSBO (anys ex_two 1)
          \<and> to_bool s' 1
          \<and> (\<exists>s''. Any_dtor 1 s' = Some s''))"
proof -
  have v: "valid ex_two 1"
    by (simp add: valid_def ex_two_eq ex_defs owns_def eval_defs)
  have n: "mVTable (anys ex_two 1) \<noteq> None"
    by (simp add: ex_two_eq)
  have d: "(2::nat) \<noteq> 1" by simp
  from move_ctor_keeps_source[OF v n d, of 8] v n show ?thesis by blast
qed

subsection \<open>Swap\<close>

text \<open>
  With both containers inline, or both behind a pointer, \<open>swap\<close> exchanges tables and
  held values.
\<close>

lemma swap_inline_inline:
  assumes "a \<noteq> b"
    and "mVTable (anys s a) = Some (VTableT (Object na n ta))" "mSBO (anys s a)"
        "n \<le> length (mUnion (anys s a))"
    and "mVTable (anys s b) = Some (VTableT (Object nb m tb))" "mSBO (anys s b)"
        "m \<le> length (mUnion (anys s b))"
  shows "\<exists>s'. swap_any SIZE a b s = Some s'
            \<and> mVTable (anys s' a) = mVTable (anys s b) \<and> mVTable (anys s' b) = mVTable (anys s a)
            \<and> held_value s' a = held_value s b \<and> held_value s' b = held_value s a
            \<and> valid s' a \<and> valid s' b"
  using assms
  by (simp add: swap_any_def Swap_def Let_def field_defs held_value_def Get_def load_def
      valid_def place_def min_def)

lemma swap_heap_heap:
  assumes "a \<noteq> b"
    and "mVTable (anys s a) = Some (VTableT (Object na n ta))" "\<not> mSBO (anys s a)"
        "get_mObject (anys s a) = Obj pa"
    and "mVTable (anys s b) = Some (VTableT (Object nb m tb))" "\<not> mSBO (anys s b)"
        "get_mObject (anys s b) = Obj pb"
  shows "\<exists>s'. swap_any SIZE a b s = Some s'
            \<and> mVTable (anys s' a) = mVTable (anys s b) \<and> mVTable (anys s' b) = mVTable (anys s a)
            \<and> held_value s' a = held_value s b \<and> held_value s' b = held_value s a
            \<and> valid s' a = valid s b \<and> valid s' b = valid s a"
  using assms
  by (simp add: swap_any_def Swap_def Let_def field_defs held_value_def Get_def load_def
      valid_def get_mObject_encode lookup_def owns_def)

text \<open>
  With \<open>a\<close> inline and \<open>b\<close> behind a pointer, \<^verbatim>\<open>mObject = other.mObject\<close> overwrites
  the first cells of the payload of \<open>a\<close> before \<^verbatim>\<open>Move\<close> reads it: what \<open>b\<close> holds
  afterwards starts with the cells of the pointer.
\<close>

lemma swap_inline_heap:
  assumes "a \<noteq> b"
    and "mVTable (anys s a) = Some (VTableT (Object na n ta))" "mSBO (anys s a)"
        "n \<le> length (mUnion (anys s a))" "PTR_SIZE \<le> length (mUnion (anys s a))"
    and "mVTable (anys s b) = Some (VTableT (Object nb m tb))" "\<not> mSBO (anys s b)"
        "get_mObject (anys s b) = Obj pb"
  shows "\<exists>s'. swap_any SIZE a b s = Some s'
            \<and> mVTable (anys s' a) = mVTable (anys s b) \<and> mVTable (anys s' b) = mVTable (anys s a)
            \<and> held_value s' a = held_value s b
            \<and> held_value s' b
                 = Some (take n (encode_ptr (Obj pb) @ drop PTR_SIZE (mUnion (anys s a))))"
proof -
  have l: "n \<le> length (encode_ptr (Obj pb) @ drop PTR_SIZE (mUnion (anys s a)))"
    using assms(4,5) by (simp add: length_encode_ptr)
  show ?thesis using assms(1,2,3,6,7,8)
    by (simp add: swap_any_def Swap_def Let_def field_defs held_value_def Get_def load_def
      get_mObject_encode lookup_def take_place[OF l] del: take_append)
qed

text \<open>
  With \<open>a\<close> behind a pointer and \<open>b\<close> inline, \<^verbatim>\<open>Move\<close> writes the payload of \<open>b\<close> over
  the pointer of \<open>a\<close> before \<^verbatim>\<open>other.mObject = mObject\<close> reads it: the pointer \<open>b\<close> gets
  is what the pointer slot yields once the payload lies over it.
\<close>

lemma swap_heap_inline:
  assumes "a \<noteq> b"
    and "mVTable (anys s a) = Some (VTableT (Object na n ta))" "\<not> mSBO (anys s a)"
    and "mVTable (anys s b) = Some (VTableT (Object nb m tb))" "mSBO (anys s b)"
        "m \<le> length (mUnion (anys s b))"
  shows "\<exists>s'. swap_any SIZE a b s = Some s'
            \<and> mVTable (anys s' a) = mVTable (anys s b) \<and> mVTable (anys s' b) = mVTable (anys s a)
            \<and> held_value s' a = held_value s b
            \<and> get_mObject (anys s' b)
                 = get_mObject (set_mStorage
                     (place (take m (mUnion (anys s b))) (mUnion (anys s a))) (anys s a))"
proof -
  have g: "\<And>x y r. get_mObject (x\<lparr>mUnion := encode_ptr y @ r\<rparr>) = y"
    by (simp add: get_mObject_def length_encode_ptr decode_encode_ptr)
  have h: "\<And>x u. get_mObject (x\<lparr>mSBO := u\<rparr>) = get_mObject x"
    "\<And>x u. get_mObject (x\<lparr>mVTable := u\<rparr>) = get_mObject x"
    by (simp_all add: get_mObject_def)
  have t: "take m (place (take m (mUnion (anys s b))) (mUnion (anys s a))) = take m (mUnion (anys s b))"
    using assms(6) by (rule take_place)
  show ?thesis using assms
    by (simp add: swap_any_def Swap_def Let_def field_defs held_value_def Get_def load_def g h t)
qed

text \<open>
  Claim C1 says that in each of the four combinations of storage modes \<open>swap(a, b)\<close>
  leaves in \<open>a\<close> the type and value \<open>b\<close> had, and in \<open>b\<close> those \<open>a\<close> had. The code
  does not do so in the two mixed combinations. In \<open>ex_two\<close>, \<open>a\<close> (address 0) holds
  the \<^verbatim>\<open>int\<close> 42 inline and \<open>b\<close> (address 1) holds a 16-byte object in block 0.
  After \<open>swap(a, b)\<close>, \<open>a\<close> holds the 16-byte object, and \<open>b\<close> answers \<open>Is<int>\<close> but
  its value is the first four cells of the pointer to block 0, not 42. After
  \<open>swap(b, a)\<close>, \<open>b\<close> holds 42, and \<open>a\<close> answers \<open>Is<Big>\<close> but its pointer is
  indeterminate and nothing can be read through it.
\<close>

theorem swap_mixed_storage_modes:
  "load ex_two ex_int (TryGet ex_int ex_two 0) = Some ex_v42
   \<and> load ex_two ex_big (TryGet ex_big ex_two 1) = Some ex_vbig
   \<and> map_option (\<lambda>t. (Is ex_big t 0, load t ex_big (TryGet ex_big t 0))) (swap_any 8 0 1 ex_two)
       = Some (True, Some ex_vbig)
   \<and> map_option (\<lambda>t. (Is ex_int t 1, load t ex_int (TryGet ex_int t 1))) (swap_any 8 0 1 ex_two)
       = Some (True, Some [Frag (Obj 0) 0, Frag (Obj 0) 1, Frag (Obj 0) 2, Frag (Obj 0) 3])
   \<and> map_option (\<lambda>t. (Is ex_int t 1, load t ex_int (TryGet ex_int t 1))) (swap_any 8 1 0 ex_two)
       = Some (True, Some ex_v42)
   \<and> map_option (\<lambda>t. (Is ex_big t 0, TryGet ex_big t 0, load t ex_big (TryGet ex_big t 0)))
        (swap_any 8 1 0 ex_two)
       = Some (True, Indet, None)"
  by (simp add: ex_two_eq swap_any_def Swap_def Let_def field_defs Is_def TryGet_def load_def
      lookup_def get_mObject_def decode_ptr_def encode_ptr_def PTR_SIZE_def place_def ex_defs)

subsection \<open>Self-swap and self-assignment\<close>












end
